theory Spec2Isabelle
  imports Complex_Main
begin

section \<open>Data model (lib/dnd/types.ts)\<close>

text \<open>
  JavaScript numbers are modelled as reals: finite values with exact arithmetic.
  Rounding, NaN and the infinities are outside this model; the one place where the
  source could leave the finite numbers (a division) is modelled with an explicit
  result, see \<open>js_div\<close>.

  Field names that clash with HOL constants or with each other carry a short prefix:
  \<open>px\<close>, \<open>py\<close> for \<open>Point.x\<close>, \<open>Point.y\<close>; \<open>rtop\<close> ... \<open>rheight\<close> for \<open>Rect\<close>;
  \<open>did\<close>, \<open>dtype\<close> for \<open>DragData.id\<close>, \<open>DragData.type\<close>.
\<close>

record Point =
  px :: real
  py :: real

record Rect =
  rtop :: real
  rleft :: real
  rright :: real
  rbottom :: real
  rwidth :: real
  rheight :: real

record 'p DragData =
  did :: string
  dtype :: string
  payload :: 'p

datatype DragPhase = Idle | Pending | Dragging | Dropping

record 'p DragState =
  phase :: DragPhase
  isDragging :: bool
  data :: "'p DragData option"
  position :: "Point option"
  initialPosition :: "Point option"
  offset :: Point
  delta_field :: Point
  overDropZoneId :: "string option"

definition INITIAL_DRAG_STATE :: "'p DragState" where
  "INITIAL_DRAG_STATE =
     \<lparr>phase = Idle, isDragging = False, data = None, position = None,
      initialPosition = None, offset = \<lparr>px = 0, py = 0\<rparr>,
      delta_field = \<lparr>px = 0, py = 0\<rparr>, overDropZoneId = None\<rparr>"

text \<open>The three event shapes delivered to the provider's optional callbacks.\<close>

datatype 'p DragEvent =
    DragStartEvent "'p DragData" Point
  | DragMoveEvent "'p DragData" Point Point
  | DragEndEvent "'p DragData" "Point option" "string option" bool

section \<open>Geometry utilities (lib/dnd/utils.ts)\<close>

definition distance :: "Point \<Rightarrow> Point \<Rightarrow> real" where
  "distance a b = sqrt ((px b - px a)\<^sup>2 + (py b - py a)\<^sup>2)"

definition delta :: "Point \<Rightarrow> Point \<Rightarrow> Point" where
  "delta from to = \<lparr>px = px to - px from, py = py to - py from\<rparr>"

definition center :: "Rect \<Rightarrow> Point" where
  "center rect = \<lparr>px = rleft rect + rwidth rect / 2, py = rtop rect + rheight rect / 2\<rparr>"

definition isPointInRect :: "Point \<Rightarrow> Rect \<Rightarrow> bool" where
  "isPointInRect pt rect \<longleftrightarrow>
     px pt \<ge> rleft rect \<and> px pt \<le> rright rect \<and> py pt \<ge> rtop rect \<and> py pt \<le> rbottom rect"

definition intersectionArea :: "Rect \<Rightarrow> Rect \<Rightarrow> real" where
  "intersectionArea a b =
     (let xOverlap = max 0 (min (rright a) (rright b) - max (rleft a) (rleft b));
          yOverlap = max 0 (min (rbottom a) (rbottom b) - max (rtop a) (rtop b))
      in xOverlap * yOverlap)"

text \<open>
  The JavaScript operator \<open>/\<close> on a zero divisor yields an infinity or NaN, which is
  no real number: \<open>js_div\<close> returns \<open>None\<close> there, so that a division by zero
  is visible in the model instead of being HOL's \<open>x / 0 = 0\<close>.
\<close>

definition js_div :: "real \<Rightarrow> real \<Rightarrow> real option" where
  "js_div a b = (if b = 0 then None else Some (a / b))"

definition intersectionRatio :: "Rect \<Rightarrow> Rect \<Rightarrow> real option" where
  "intersectionRatio a b =
     (let area = intersectionArea a b;
          aArea = rwidth a * rheight a
      in if aArea > 0 then js_div area aArea else Some 0)"

section \<open>Drag coordinator (lib/dnd/context.tsx)\<close>

text \<open>
  Each operation takes the drag state and returns the new state together with the
  events it hands to the provider callbacks, in order.
\<close>

definition startDrag ::
  "'p DragData \<Rightarrow> Point \<Rightarrow> Point \<Rightarrow> 'p DragState \<Rightarrow> 'p DragState \<times> 'p DragEvent list" where
  "startDrag d pos off s =
     (\<lparr>phase = Dragging, isDragging = True, data = Some d, position = Some pos,
       initialPosition = Some pos, offset = off, delta_field = \<lparr>px = 0, py = 0\<rparr>,
       overDropZoneId = None\<rparr>,
      [DragStartEvent d pos])"

definition updateDrag :: "Point \<Rightarrow> 'p DragState \<Rightarrow> 'p DragState \<times> 'p DragEvent list" where
  "updateDrag pos prev =
     (if \<not> isDragging prev then (prev, [])
      else case initialPosition prev of
        None \<Rightarrow> (prev, [])
      | Some ip \<Rightarrow>
          (let newDelta = delta ip pos
           in (prev\<lparr>position := Some pos, delta_field := newDelta\<rparr>,
               (case data prev of
                  Some d \<Rightarrow> [DragMoveEvent d pos newDelta]
                | None \<Rightarrow> []))))"

definition endDrag :: "'p DragState \<Rightarrow> 'p DragState \<times> 'p DragEvent list" where
  "endDrag currentState =
     (INITIAL_DRAG_STATE,
      (case data currentState of
         Some d \<Rightarrow> [DragEndEvent d (position currentState) (overDropZoneId currentState) False]
       | None \<Rightarrow> []))"

definition cancelDrag :: "'p DragState \<Rightarrow> 'p DragState \<times> 'p DragEvent list" where
  "cancelDrag currentState =
     (INITIAL_DRAG_STATE,
      (case data currentState of
         Some d \<Rightarrow> [DragEndEvent d (position currentState) None True]
       | None \<Rightarrow> []))"

definition setOverDropZone :: "string option \<Rightarrow> 'p DragState \<Rightarrow> 'p DragState" where
  "setOverDropZone zid prev =
     (if overDropZoneId prev = zid then prev else prev\<lparr>overDropZoneId := zid\<rparr>)"

text \<open>
  The provider's keydown listener exists only while \<open>isDragging\<close> holds, and reacts
  to the Escape key alone.
\<close>

definition escapeKeyDown :: "string \<Rightarrow> 'p DragState \<Rightarrow> 'p DragState \<times> 'p DragEvent list" where
  "escapeKeyDown key s =
     (if \<not> isDragging s then (s, [])
      else if key = ''Escape'' then cancelDrag s
      else (s, []))"

text \<open>Sequences of coordinator operations, run from a given state.\<close>

datatype 'p CoordOp =
    OpStartDrag "'p DragData" Point Point
  | OpUpdateDrag Point
  | OpEndDrag
  | OpCancelDrag
  | OpSetOverDropZone "string option"

fun applyOp :: "'p CoordOp \<Rightarrow> 'p DragState \<Rightarrow> 'p DragState" where
  "applyOp (OpStartDrag d pos off) s = fst (startDrag d pos off s)"
| "applyOp (OpUpdateDrag pos) s = fst (updateDrag pos s)"
| "applyOp OpEndDrag s = fst (endDrag s)"
| "applyOp OpCancelDrag s = fst (cancelDrag s)"
| "applyOp (OpSetOverDropZone zid) s = setOverDropZone zid s"

fun runOps :: "'p CoordOp list \<Rightarrow> 'p DragState \<Rightarrow> 'p DragState" where
  "runOps [] s = s"
| "runOps (op # ops) s = runOps ops (applyOp op s)"

section \<open>Draggable controller (lib/dnd/useDraggable.ts)\<close>

text \<open>
  Optional configuration fields are options; a missing field takes the default the
  source's destructuring gives it.
\<close>

record ActivationConstraints =
  ac_distance :: "real option"
  ac_delay :: "real option"
  ac_tolerance :: "real option"

definition DEFAULT_ACTIVATION :: ActivationConstraints where
  "DEFAULT_ACTIVATION = \<lparr>ac_distance = Some 0, ac_delay = Some 0, ac_tolerance = Some 5\<rparr>"

record 'p DraggableConfig =
  cfg_id :: string
  cfg_type :: string
  cfg_data :: 'p
  cfg_disabled :: "bool option"
  cfg_activation :: "ActivationConstraints option"

definition disabled_of :: "'p DraggableConfig \<Rightarrow> bool" where
  "disabled_of cfg = (case cfg_disabled cfg of None \<Rightarrow> False | Some b \<Rightarrow> b)"

definition activation_of :: "'p DraggableConfig \<Rightarrow> ActivationConstraints" where
  "activation_of cfg = (case cfg_activation cfg of None \<Rightarrow> DEFAULT_ACTIVATION | Some a \<Rightarrow> a)"

definition delay_of :: "'p DraggableConfig \<Rightarrow> real" where
  "delay_of cfg = (case ac_delay (activation_of cfg) of None \<Rightarrow> 0 | Some v \<Rightarrow> v)"

definition minDistance_of :: "'p DraggableConfig \<Rightarrow> real" where
  "minDistance_of cfg = (case ac_distance (activation_of cfg) of None \<Rightarrow> 0 | Some v \<Rightarrow> v)"

definition tolerance_of :: "'p DraggableConfig \<Rightarrow> real" where
  "tolerance_of cfg = (case ac_tolerance (activation_of cfg) of None \<Rightarrow> 5 | Some v \<Rightarrow> v)"

definition dragDataOf :: "'p DraggableConfig \<Rightarrow> 'p DragData" where
  "dragDataOf cfg = \<lparr>did = cfg_id cfg, dtype = cfg_type cfg, payload = cfg_data cfg\<rparr>"

text \<open>
  \<open>pendingStartRef.current\<close>: the pick-up position, the grab offset and the handle of
  the delay timer (\<open>None\<close> for \<open>null\<close>). The host hands out positive timer handles,
  so a stored handle is truthy.
\<close>

record PendingStart =
  ps_position :: Point
  ps_offset :: Point
  ps_timer :: "nat option"

text \<open>
  The controller's state: the \<open>isPending\<close> flag, \<open>isOurDragRef\<close>, \<open>pendingStartRef\<close>,
  and the host's table of live timers, each with the position and offset its callback
  closed over. Time itself is not modelled: a timer elapsing is the event
  \<open>timerElapsed\<close>, which may come at any moment after the timer was armed.
\<close>

record DraggableCtl =
  isPending :: bool
  isOurDrag :: bool
  pendingStart :: "PendingStart option"
  timers :: "(nat \<times> Point \<times> Point) list"
  nextTimerId :: nat

definition initialDraggableCtl :: DraggableCtl where
  "initialDraggableCtl =
     \<lparr>isPending = False, isOurDrag = False, pendingStart = None, timers = [], nextTimerId = 1\<rparr>"

text \<open>The calls a handler makes on the coordinator, in order.\<close>

datatype 'p Cmd =
    CallStartDrag "'p DragData" Point Point
  | CallUpdateDrag Point
  | CallEndDrag
  | CallCancelDrag

definition shouldActivate :: "'p DraggableConfig \<Rightarrow> Point \<Rightarrow> Point \<Rightarrow> bool" where
  "shouldActivate cfg initialPos currentPos =
     (let minDistance = minDistance_of cfg
      in if minDistance \<le> 0 then True
         else distance initialPos currentPos \<ge> minDistance)"

definition clearTimeout :: "nat \<Rightarrow> (nat \<times> Point \<times> Point) list \<Rightarrow> (nat \<times> Point \<times> Point) list" where
  "clearTimeout t ts = filter (\<lambda>e. fst e \<noteq> t) ts"

definition clearPending :: "DraggableCtl \<Rightarrow> DraggableCtl" where
  "clearPending c =
     (let ts = (case pendingStart c of
                  None \<Rightarrow> timers c
                | Some ps \<Rightarrow> (case ps_timer ps of
                               None \<Rightarrow> timers c
                             | Some t \<Rightarrow> clearTimeout t (timers c)))
      in c\<lparr>pendingStart := None, isPending := False, timers := ts\<rparr>)"

definition handleDragStart ::
  "'p DraggableConfig \<Rightarrow> Point \<Rightarrow> Point \<Rightarrow> DraggableCtl \<Rightarrow> DraggableCtl \<times> 'p Cmd list" where
  "handleDragStart cfg pos off c =
     (if disabled_of cfg then (c, [])
      else if delay_of cfg \<le> 0 \<and> minDistance_of cfg \<le> 0
      then (c\<lparr>isOurDrag := True\<rparr>, [CallStartDrag (dragDataOf cfg) pos off])
      else
        (let c1 = c\<lparr>isPending := True,
                     pendingStart := Some \<lparr>ps_position = pos, ps_offset = off, ps_timer = None\<rparr>\<rparr>
         in if delay_of cfg > 0
            then (let t = nextTimerId c1
                  in (c1\<lparr>pendingStart :=
                           Some \<lparr>ps_position = pos, ps_offset = off, ps_timer = Some t\<rparr>,
                         timers := timers c1 @ [(t, pos, off)],
                         nextTimerId := Suc t\<rparr>, []))
            else (c1, [])))"

text \<open>The callback given to \<open>setTimeout\<close>; it runs only if its timer is still live.\<close>

definition timerElapsed ::
  "'p DraggableConfig \<Rightarrow> nat \<Rightarrow> DraggableCtl \<Rightarrow> DraggableCtl \<times> 'p Cmd list" where
  "timerElapsed cfg t c =
     (case find (\<lambda>e. fst e = t) (timers c) of
        None \<Rightarrow> (c, [])
      | Some (_, pos, off) \<Rightarrow>
          (let c0 = c\<lparr>timers := clearTimeout t (timers c)\<rparr>
           in case pendingStart c0 of
                None \<Rightarrow> (c0, [])
              | Some _ \<Rightarrow>
                  (clearPending (c0\<lparr>isOurDrag := True\<rparr>),
                   [CallStartDrag (dragDataOf cfg) pos off])))"

definition handleMove ::
  "'p DraggableConfig \<Rightarrow> Point \<Rightarrow> DraggableCtl \<Rightarrow> DraggableCtl \<times> 'p Cmd list" where
  "handleMove cfg pos c =
     (let normalMove = (if isOurDrag c then (c, [CallUpdateDrag pos]) else (c, []))
      in case pendingStart c of
           None \<Rightarrow> normalMove
         | Some ps \<Rightarrow>
             if isOurDrag c then normalMove
             else
               (let tolerance = tolerance_of cfg;
                    moved = distance (ps_position ps) pos
                in if ps_timer ps \<noteq> None \<and> moved > tolerance
                   then (clearPending c, [])
                   else if shouldActivate cfg (ps_position ps) pos
                   then (clearPending (c\<lparr>isOurDrag := True\<rparr>),
                         [CallStartDrag (dragDataOf cfg) pos (ps_offset ps)])
                   else (c, [])))"

definition handleDragEnd :: "DraggableCtl \<Rightarrow> DraggableCtl \<times> 'p Cmd list" where
  "handleDragEnd c =
     (let c1 = clearPending c
      in if isOurDrag c1 then (c1\<lparr>isOurDrag := False\<rparr>, [CallEndDrag]) else (c1, []))"

definition handleCancel :: "DraggableCtl \<Rightarrow> DraggableCtl \<times> 'p Cmd list" where
  "handleCancel c =
     (let c1 = clearPending c
      in if isOurDrag c1 then (c1\<lparr>isOurDrag := False\<rparr>, [CallCancelDrag]) else (c1, []))"

text \<open>\<open>rect\<close> is the bounding rectangle of the element that received the key press.\<close>

definition handleKeyDown ::
  "'p DraggableConfig \<Rightarrow> string \<Rightarrow> Rect \<Rightarrow> DraggableCtl \<Rightarrow> DraggableCtl \<times> 'p Cmd list" where
  "handleKeyDown cfg key rect c =
     (if disabled_of cfg then (c, [])
      else if key = '' '' \<or> key = ''Enter''
      then handleDragStart cfg
             \<lparr>px = rleft rect + rwidth rect / 2, py = rtop rect + rheight rect / 2\<rparr>
             \<lparr>px = rwidth rect / 2, py = rheight rect / 2\<rparr> c
      else (c, []))"

text \<open>Carrying the controller's calls out on the coordinator.\<close>

fun execCmd :: "'p Cmd \<Rightarrow> 'p DragState \<Rightarrow> 'p DragState" where
  "execCmd (CallStartDrag d pos off) s = fst (startDrag d pos off s)"
| "execCmd (CallUpdateDrag pos) s = fst (updateDrag pos s)"
| "execCmd CallEndDrag s = fst (endDrag s)"
| "execCmd CallCancelDrag s = fst (cancelDrag s)"

fun execCmds :: "'p Cmd list \<Rightarrow> 'p DragState \<Rightarrow> 'p DragState" where
  "execCmds [] s = s"
| "execCmds (c # cs) s = execCmds cs (execCmd c s)"

text \<open>A run of move events through \<open>handleMove\<close>, collecting the calls.\<close>

fun handleMoves ::
  "'p DraggableConfig \<Rightarrow> Point list \<Rightarrow> DraggableCtl \<Rightarrow> DraggableCtl \<times> 'p Cmd list" where
  "handleMoves cfg [] c = (c, [])"
| "handleMoves cfg (p # ps) c =
     (let (c1, cmds1) = handleMove cfg p c;
          (c2, cmds2) = handleMoves cfg ps c1
      in (c2, cmds1 @ cmds2))"

section \<open>Drop target controller (lib/dnd/useDropZone.ts)\<close>

datatype Accept = AcceptOne string | AcceptMany "string list"

text \<open>
  The configuration's callbacks \<open>onDrop\<close>, \<open>onDragEnter\<close>, \<open>onDragOver\<close> and
  \<open>onDragLeave\<close> are not fields here: a handler returns the list of calls it makes.
\<close>

record 'p DropZoneConfig =
  zone_id :: string
  accept :: Accept
  canDrop :: "('p \<Rightarrow> bool) option"
  zone_disabled :: "bool option"

record 'p DropState =
  isOver :: bool
  ds_canDrop :: bool
  dragData :: "'p DragData option"

text \<open>
  \<open>elementRect\<close> stands for \<open>elementRef.current\<close> and what \<open>getBoundingClientRect\<close>
  returns for it now: \<open>None\<close> when no element is attached.
\<close>

record 'p DropZoneCtl =
  dropState :: "'p DropState"
  prevIsOver :: bool
  elementRect :: "Rect option"

definition initialDropZoneCtl :: "Rect option \<Rightarrow> 'p DropZoneCtl" where
  "initialDropZoneCtl r =
     \<lparr>dropState = \<lparr>isOver = False, ds_canDrop = False, dragData = None\<rparr>,
      prevIsOver = False, elementRect = r\<rparr>"

datatype 'p ZoneCall =
    OnDrop 'p Point
  | OnDragEnter 'p
  | OnDragOver 'p Point
  | OnDragLeave
  | CallSetOverDropZone "string option"

definition zoneDisabled :: "'p DropZoneConfig \<Rightarrow> bool" where
  "zoneDisabled cfg = (case zone_disabled cfg of None \<Rightarrow> False | Some b \<Rightarrow> b)"

definition acceptTypes :: "'p DropZoneConfig \<Rightarrow> string list" where
  "acceptTypes cfg = (case accept cfg of AcceptOne t \<Rightarrow> [t] | AcceptMany ts \<Rightarrow> ts)"

definition isAcceptedType :: "'p DropZoneConfig \<Rightarrow> string \<Rightarrow> bool" where
  "isAcceptedType cfg t = (if zoneDisabled cfg then False else t \<in> set (acceptTypes cfg))"

definition isPositionOver :: "'p DropZoneCtl \<Rightarrow> Point option \<Rightarrow> bool" where
  "isPositionOver z pos =
     (case pos of
        None \<Rightarrow> False
      | Some p \<Rightarrow> (case elementRect z of None \<Rightarrow> False | Some rect \<Rightarrow> isPointInRect p rect))"

definition checkCanDrop :: "'p DropZoneConfig \<Rightarrow> 'p \<Rightarrow> bool" where
  "checkCanDrop cfg pl =
     (if zoneDisabled cfg then False
      else case canDrop cfg of Some f \<Rightarrow> f pl | None \<Rightarrow> True)"

text \<open>The effect that re-evaluates the target whenever the drag state changes.\<close>

definition dragStateEffect ::
  "'p DropZoneConfig \<Rightarrow> 'p DragState \<Rightarrow> 'p DropZoneCtl \<Rightarrow> 'p DropZoneCtl \<times> 'p ZoneCall list" where
  "dragStateEffect cfg ds z =
     (let cleared = \<lparr>isOver = False, ds_canDrop = False, dragData = None\<rparr>;
          notActive =
            (if prevIsOver z
             then (z\<lparr>prevIsOver := False, dropState := cleared\<rparr>,
                   [OnDragLeave, CallSetOverDropZone None])
             else (z, []))
      in case data ds of
           None \<Rightarrow> notActive
         | Some d \<Rightarrow>
             if \<not> isDragging ds \<or> \<not> isAcceptedType cfg (dtype d) then notActive
             else
               (let over = isPositionOver z (position ds);
                    canDropHere = (over \<and> checkCanDrop cfg (payload d))
                in if over \<noteq> prevIsOver z
                   then (if over
                         then (z\<lparr>dropState :=
                                   \<lparr>isOver = True, ds_canDrop = canDropHere, dragData = Some d\<rparr>,
                                 prevIsOver := over\<rparr>,
                               [CallSetOverDropZone (Some (zone_id cfg)), OnDragEnter (payload d)])
                         else (z\<lparr>dropState := cleared, prevIsOver := over\<rparr>,
                               [CallSetOverDropZone None, OnDragLeave]))
                   else if over
                   then (z\<lparr>dropState :=
                             (dropState z)\<lparr>ds_canDrop := canDropHere, dragData := Some d\<rparr>\<rparr>,
                         (case position ds of
                            Some p \<Rightarrow> [OnDragOver (payload d) p]
                          | None \<Rightarrow> []))
                   else (z, [])))"

definition handleDrop :: "'p DropZoneConfig \<Rightarrow> 'p DragState \<Rightarrow> 'p DropZoneCtl \<Rightarrow> 'p ZoneCall list" where
  "handleDrop cfg ds z =
     (if isOver (dropState z) \<and> ds_canDrop (dropState z)
      then (case data ds of
              None \<Rightarrow> []
            | Some d \<Rightarrow> (case position ds of
                           None \<Rightarrow> []
                         | Some p \<Rightarrow> [OnDrop (payload d) p]))
      else [])"

text \<open>
  The capture-phase \<open>mouseup\<close>/\<open>touchend\<close> listener that runs \<open>handleDrop\<close> exists
  only while \<open>isDragging\<close> holds.
\<close>

definition releaseCapture ::
  "'p DropZoneConfig \<Rightarrow> 'p DragState \<Rightarrow> 'p DropZoneCtl \<Rightarrow> 'p ZoneCall list" where
  "releaseCapture cfg ds z = (if \<not> isDragging ds then [] else handleDrop cfg ds z)"

text \<open>
  What happens to a drop target between mount and release: the drag state changes
  (the effect runs on it), or the element's bounding rectangle changes (scrolling,
  layout), which runs no code of the target.
\<close>

datatype 'p ZoneEvent = DragStateChanged "'p DragState" | LayoutChanged "Rect option"

fun zoneStep :: "'p DropZoneConfig \<Rightarrow> 'p ZoneEvent \<Rightarrow> 'p DropZoneCtl \<Rightarrow> 'p DropZoneCtl" where
  "zoneStep cfg (DragStateChanged ds) z = fst (dragStateEffect cfg ds z)"
| "zoneStep cfg (LayoutChanged r) z = z\<lparr>elementRect := r\<rparr>"

fun runZone :: "'p DropZoneConfig \<Rightarrow> 'p ZoneEvent list \<Rightarrow> 'p DropZoneCtl \<Rightarrow> 'p DropZoneCtl" where
  "runZone cfg [] z = z"
| "runZone cfg (ev # evs) z = runZone cfg evs (zoneStep cfg ev z)"

section \<open>Predicates used in the statements\<close>

text \<open>
  The coordinator invariant: the phase is \<open>idle\<close> or \<open>dragging\<close> and agrees with
  \<open>isDragging\<close>; a dragging state has its item and both positions; an idle state has
  no item, no positions, and zero offset and delta.
\<close>

definition coordInv :: "'p DragState \<Rightarrow> bool" where
  "coordInv s \<longleftrightarrow>
     (phase s = Idle \<or> phase s = Dragging) \<and>
     (isDragging s \<longleftrightarrow> phase s = Dragging) \<and>
     (phase s = Dragging \<longrightarrow> data s \<noteq> None \<and> position s \<noteq> None \<and> initialPosition s \<noteq> None) \<and>
     (phase s = Idle \<longrightarrow> data s = None \<and> position s = None \<and> initialPosition s = None \<and>
        offset s = \<lparr>px = 0, py = 0\<rparr> \<and> delta_field s = \<lparr>px = 0, py = 0\<rparr>)"

text \<open>
  A sequence of operations is hover-guarded when every \<open>setOverDropZone\<close> with an
  identifier (not \<open>null\<close>) is applied to a dragging state, which is how the drop target
  controller calls it.
\<close>

fun hoverGuarded :: "'p CoordOp list \<Rightarrow> 'p DragState \<Rightarrow> bool" where
  "hoverGuarded [] s = True"
| "hoverGuarded (op # ops) s =
     ((case op of OpSetOverDropZone (Some zid) \<Rightarrow> isDragging s | _ \<Rightarrow> True) \<and>
      hoverGuarded ops (applyOp op s))"

text \<open>The drop target's flag \<open>isOver\<close> and \<open>prevIsOverRef\<close> agree.\<close>

definition zoneInv :: "'p DropZoneCtl \<Rightarrow> bool" where
  "zoneInv z \<longleftrightarrow> isOver (dropState z) = prevIsOver z"

section \<open>Concrete inputs\<close>

definition exBlock :: "nat DragData" where
  "exBlock = \<lparr>did = ''b1'', dtype = ''block'', payload = 7\<rparr>"

definition exTile :: "nat DragData" where
  "exTile = \<lparr>did = ''b2'', dtype = ''block'', payload = 8\<rparr>"

definition exGridRect :: Rect where
  "exGridRect = \<lparr>rtop = 0, rleft = 0, rright = 400, rbottom = 400, rwidth = 400, rheight = 400\<rparr>"

definition exMovedRect :: Rect where
  "exMovedRect =
     \<lparr>rtop = 500, rleft = 500, rright = 900, rbottom = 900, rwidth = 400, rheight = 400\<rparr>"

definition exHalfRect :: Rect where
  "exHalfRect =
     \<lparr>rtop = 200, rleft = 200, rright = 600, rbottom = 600, rwidth = 400, rheight = 400\<rparr>"

definition exFlatRect :: Rect where
  "exFlatRect = \<lparr>rtop = 0, rleft = 0, rright = 400, rbottom = 0, rwidth = 400, rheight = 0\<rparr>"

definition exButtonRect :: Rect where
  "exButtonRect =
     \<lparr>rtop = 200, rleft = 100, rright = 140, rbottom = 220, rwidth = 40, rheight = 20\<rparr>"

definition exGridCfg :: "nat DropZoneConfig" where
  "exGridCfg =
     \<lparr>zone_id = ''grid'', accept = AcceptOne ''block'', canDrop = None, zone_disabled = None\<rparr>"

definition exStarted :: "nat DragState" where
  "exStarted = fst (startDrag exBlock \<lparr>px = 50, py = 50\<rparr> \<lparr>px = 5, py = 5\<rparr> INITIAL_DRAG_STATE)"

definition exDragging :: "nat DragState" where
  "exDragging = fst (updateDrag \<lparr>px = 120, py = 120\<rparr> exStarted)"

definition exPlainCfg :: "nat DraggableConfig" where
  "exPlainCfg =
     \<lparr>cfg_id = ''b1'', cfg_type = ''block'', cfg_data = 7, cfg_disabled = None,
      cfg_activation = None\<rparr>"

definition exDistanceCfg :: "nat DraggableConfig" where
  "exDistanceCfg =
     \<lparr>cfg_id = ''b1'', cfg_type = ''block'', cfg_data = 7, cfg_disabled = None,
      cfg_activation = Some \<lparr>ac_distance = Some 10, ac_delay = None, ac_tolerance = None\<rparr>\<rparr>"

definition exDelayCfg :: "nat DraggableConfig" where
  "exDelayCfg =
     \<lparr>cfg_id = ''b1'', cfg_type = ''block'', cfg_data = 7, cfg_disabled = None,
      cfg_activation = Some \<lparr>ac_distance = None, ac_delay = Some 300, ac_tolerance = Some 5\<rparr>\<rparr>"

definition exGesture :: "nat CoordOp list" where
  "exGesture =
     [OpStartDrag exBlock \<lparr>px = 50, py = 50\<rparr> \<lparr>px = 5, py = 5\<rparr>,
      OpUpdateDrag \<lparr>px = 120, py = 120\<rparr>,
      OpSetOverDropZone (Some ''grid'')]"

text \<open>
  A controller after a drag that was started by distance and then cancelled with
  Escape: the coordinator's cancel runs no handler of the controller, so its state
  is the one the activating move left.
\<close>

definition exStaleCtl :: DraggableCtl where
  "exStaleCtl =
     fst (handleMove exDistanceCfg \<lparr>px = 10, py = 0\<rparr>
       (fst (handleDragStart exDistanceCfg \<lparr>px = 0, py = 0\<rparr> \<lparr>px = 5, py = 5\<rparr>
               initialDraggableCtl)))"

section \<open>Auxiliary facts\<close>

lemma distance_same_y: "py a = py b \<Longrightarrow> distance a b = \<bar>px b - px a\<bar>"
  by (simp add: distance_def)

lemma coordInv_initial: "coordInv INITIAL_DRAG_STATE"
  by (simp add: coordInv_def INITIAL_DRAG_STATE_def)

lemma coordInv_applyOp: "coordInv s \<Longrightarrow> coordInv (applyOp op s)"
  by (cases op)
     (auto simp: coordInv_def startDrag_def updateDrag_def endDrag_def cancelDrag_def
        setOverDropZone_def INITIAL_DRAG_STATE_def Let_def split: option.splits)

lemma coordInv_runOps: "coordInv s \<Longrightarrow> coordInv (runOps ops s)"
  by (induction ops arbitrary: s) (simp_all add: coordInv_applyOp)

lemma idle_hover_applyOp:
  assumes "coordInv s" and "phase s = Idle \<longrightarrow> overDropZoneId s = None"
    and "case op of OpSetOverDropZone (Some zid) \<Rightarrow> isDragging s | _ \<Rightarrow> True"
  shows "phase (applyOp op s) = Idle \<longrightarrow> overDropZoneId (applyOp op s) = None"
  using assms
  by (cases op)
     (auto simp: coordInv_def startDrag_def updateDrag_def endDrag_def cancelDrag_def
        setOverDropZone_def INITIAL_DRAG_STATE_def Let_def split: option.splits)

lemma idle_hover_runOps:
  "coordInv s \<Longrightarrow> (phase s = Idle \<longrightarrow> overDropZoneId s = None) \<Longrightarrow> hoverGuarded ops s
   \<Longrightarrow> phase (runOps ops s) = Idle \<longrightarrow> overDropZoneId (runOps ops s) = None"
proof (induction ops arbitrary: s)
  case Nil
  then show ?case by simp
next
  case (Cons op ops)
  have g: "case op of OpSetOverDropZone (Some zid) \<Rightarrow> isDragging s | _ \<Rightarrow> True"
    using Cons.prems(3) by simp
  have "coordInv (applyOp op s)" using Cons.prems(1) by (rule coordInv_applyOp)
  moreover have "phase (applyOp op s) = Idle \<longrightarrow> overDropZoneId (applyOp op s) = None"
    using idle_hover_applyOp[OF Cons.prems(1) Cons.prems(2) g] .
  moreover have "hoverGuarded ops (applyOp op s)" using Cons.prems(3) by simp
  ultimately show ?case using Cons.IH by simp
qed

lemma handleMove_below:
  assumes "pendingStart c = Some ps" "\<not> isOurDrag c" "ps_timer ps = None"
    and "0 < minDistance_of cfg" "distance (ps_position ps) p < minDistance_of cfg"
  shows "handleMove cfg p c = (c, [])"
  using assms by (simp add: handleMove_def shouldActivate_def Let_def)

lemma handleMoves_below:
  assumes "pendingStart c = Some ps" "\<not> isOurDrag c" "ps_timer ps = None"
    and "0 < minDistance_of cfg"
    and "\<forall>p \<in> set qs. distance (ps_position ps) p < minDistance_of cfg"
  shows "handleMoves cfg qs c = (c, [])"
  using assms by (induction qs) (simp_all add: handleMove_below)

lemma handleMove_reach:
  assumes "pendingStart c = Some ps" "\<not> isOurDrag c" "ps_timer ps = None"
    and "0 < minDistance_of cfg" "minDistance_of cfg \<le> distance (ps_position ps) p"
  shows "handleMove cfg p c =
           (clearPending (c\<lparr>isOurDrag := True\<rparr>), [CallStartDrag (dragDataOf cfg) p (ps_offset ps)])"
  using assms by (simp add: handleMove_def shouldActivate_def Let_def)

lemma zoneInv_initial: "zoneInv (initialDropZoneCtl r)"
  by (simp add: zoneInv_def initialDropZoneCtl_def)

lemma zoneInv_effect: "zoneInv z \<Longrightarrow> zoneInv (fst (dragStateEffect cfg ds z))"
  by (auto simp: zoneInv_def dragStateEffect_def Let_def split: option.splits)

lemma zoneInv_step: "zoneInv z \<Longrightarrow> zoneInv (zoneStep cfg ev z)"
  by (cases ev) (simp_all add: zoneInv_effect, simp add: zoneInv_def)

lemma zoneInv_run: "zoneInv z \<Longrightarrow> zoneInv (runZone cfg evs z)"
  by (induction evs arbitrary: z) (simp_all add: zoneInv_step)

lemma runZone_snoc: "runZone cfg (evs @ [ev]) z = zoneStep cfg ev (runZone cfg evs z)"
  by (induction evs arbitrary: z) simp_all

lemma effect_rect: "elementRect (fst (dragStateEffect cfg ds z)) = elementRect z"
  by (auto simp: dragStateEffect_def Let_def split: option.splits)

lemma effect_then_drop:
  assumes "zoneInv z"
  shows "handleDrop cfg ds (fst (dragStateEffect cfg ds z)) =
     (case data ds of
        None \<Rightarrow> []
      | Some d \<Rightarrow>
          (case position ds of
             None \<Rightarrow> []
           | Some p \<Rightarrow>
               if isDragging ds \<and> isAcceptedType cfg (dtype d) \<and> isPositionOver z (Some p)
                  \<and> checkCanDrop cfg (payload d)
               then [OnDrop (payload d) p] else []))"
  using assms
  by (auto simp: zoneInv_def dragStateEffect_def handleDrop_def Let_def isPositionOver_def
      split: option.splits)

lemma runZone_append: "runZone cfg (as @ bs) z = runZone cfg bs (runZone cfg as z)"
  by (induction as arbitrary: z) simp_all

lemma runZone_layout_dropState: "dropState (runZone cfg (map LayoutChanged rs) z) = dropState z"
  by (induction rs arbitrary: z) simp_all

lemma runZone_layout_rect:
  "elementRect (runZone cfg (map LayoutChanged rs) z) = (if rs = [] then elementRect z else last rs)"
  by (induction rs arbitrary: z) simp_all

lemmas ex_defs =
  exBlock_def exTile_def exGridRect_def exMovedRect_def exHalfRect_def exFlatRect_def
  exButtonRect_def exGridCfg_def exStarted_def exDragging_def exPlainCfg_def
  exDistanceCfg_def exDelayCfg_def exGesture_def

lemmas coord_defs =
  INITIAL_DRAG_STATE_def startDrag_def updateDrag_def endDrag_def cancelDrag_def
  setOverDropZone_def escapeKeyDown_def delta_def

lemmas ctl_defs =
  initialDraggableCtl_def handleDragStart_def handleMove_def handleKeyDown_def
  clearPending_def clearTimeout_def shouldActivate_def timerElapsed_def
  disabled_of_def activation_of_def delay_of_def minDistance_of_def tolerance_of_def
  dragDataOf_def DEFAULT_ACTIVATION_def

lemmas zone_defs =
  initialDropZoneCtl_def dragStateEffect_def handleDrop_def releaseCapture_def
  isAcceptedType_def isPositionOver_def checkCanDrop_def zoneDisabled_def acceptTypes_def
  isPointInRect_def

section \<open>Coordinator claims\<close>

text \<open>
  C1 (as amended). \<open>startDrag\<close> has no guard: called on any state, also one in which a
  drag is active, it replaces the drag state by a fresh dragging state for the new item
  (position and initial position the given one, zero delta, no hovered target) and
  hands out one drag-start event. The coordinator holds a single drag state, so after
  any sequence of operations a state in phase \<open>dragging\<close> carries exactly one item.
\<close>

theorem startDrag_replaces:
  "startDrag d pos off s =
     (\<lparr>phase = Dragging, isDragging = True, data = Some d, position = Some pos,
       initialPosition = Some pos, offset = off, delta_field = \<lparr>px = 0, py = 0\<rparr>,
       overDropZoneId = None\<rparr>, [DragStartEvent d pos]) \<and>
   (phase (runOps ops INITIAL_DRAG_STATE) = Dragging \<longrightarrow>
      (\<exists>!d'. data (runOps ops INITIAL_DRAG_STATE) = Some d'))"
proof -
  have "coordInv (runOps ops INITIAL_DRAG_STATE)"
    by (rule coordInv_runOps) (rule coordInv_initial)
  then show ?thesis by (auto simp: startDrag_def coordInv_def)
qed

theorem startDrag_replaces_witness:
  "phase (runOps exGesture INITIAL_DRAG_STATE) = Dragging \<and>
   data (runOps exGesture INITIAL_DRAG_STATE) = Some exBlock \<and>
   data (fst (startDrag exTile \<lparr>px = 1, py = 2\<rparr> \<lparr>px = 0, py = 0\<rparr>
                (runOps exGesture INITIAL_DRAG_STATE))) = Some exTile \<and>
   snd (startDrag exTile \<lparr>px = 1, py = 2\<rparr> \<lparr>px = 0, py = 0\<rparr>
          (runOps exGesture INITIAL_DRAG_STATE)) = [DragStartEvent exTile \<lparr>px = 1, py = 2\<rparr>]"
  using startDrag_replaces [of exTile "\<lparr>px = 1, py = 2\<rparr>" "\<lparr>px = 0, py = 0\<rparr>"
      "runOps exGesture INITIAL_DRAG_STATE" exGesture]
  by (simp add: exGesture_def coord_defs Let_def)

text \<open>
  C1 as stated fails: with the drag of item b1 active, \<open>startDrag\<close> for item b2 does
  not leave the state unchanged with no event.
\<close>

theorem startDrag_noop_counterexample:
  "isDragging exStarted \<and> phase exStarted = Dragging \<and>
   startDrag exTile \<lparr>px = 1, py = 2\<rparr> \<lparr>px = 0, py = 0\<rparr> exStarted \<noteq> (exStarted, []) \<and>
   data (fst (startDrag exTile \<lparr>px = 1, py = 2\<rparr> \<lparr>px = 0, py = 0\<rparr> exStarted)) \<noteq> data exStarted"
  by (simp add: exStarted_def exTile_def exBlock_def coord_defs)

text \<open>
  C6. When Escape is pressed in a reachable state in phase \<open>dragging\<close>, the coordinator
  goes to the initial (idle) state and hands out exactly one drag-end event, with
  \<open>cancelled = true\<close> and \<open>dropZoneId = null\<close>; no drop target calls \<open>onDrop\<close>
  afterwards: not at the release (its listener is gone, and \<open>handleDrop\<close> itself would
  find no item), and not from its drag-state effect. An \<open>endDrag\<close> that still follows
  hands out no second drag-end event.
\<close>

theorem escape_cancels:
  assumes "phase (runOps ops INITIAL_DRAG_STATE) = Dragging"
  shows "\<exists>d. data (runOps ops INITIAL_DRAG_STATE) = Some d \<and>
           escapeKeyDown ''Escape'' (runOps ops INITIAL_DRAG_STATE) =
             (INITIAL_DRAG_STATE,
              [DragEndEvent d (position (runOps ops INITIAL_DRAG_STATE)) None True]) \<and>
           phase (fst (escapeKeyDown ''Escape'' (runOps ops INITIAL_DRAG_STATE))) = Idle \<and>
           releaseCapture cfg (fst (escapeKeyDown ''Escape'' (runOps ops INITIAL_DRAG_STATE))) z = [] \<and>
           handleDrop cfg (fst (escapeKeyDown ''Escape'' (runOps ops INITIAL_DRAG_STATE))) z = [] \<and>
           snd (endDrag (fst (escapeKeyDown ''Escape'' (runOps ops INITIAL_DRAG_STATE)))) = [] \<and>
           OnDrop pl q \<notin> set (snd (dragStateEffect cfg
              (fst (escapeKeyDown ''Escape'' (runOps ops INITIAL_DRAG_STATE))) z))"
proof -
  let ?s = "runOps ops INITIAL_DRAG_STATE"
  have inv: "coordInv ?s" by (rule coordInv_runOps) (rule coordInv_initial)
  with assms obtain d where d: "data ?s = Some d" and drag: "isDragging ?s"
    by (auto simp: coordInv_def)
  have esc: "escapeKeyDown ''Escape'' ?s = (INITIAL_DRAG_STATE, [DragEndEvent d (position ?s) None True])"
    using d drag by (simp add: escapeKeyDown_def cancelDrag_def)
  show ?thesis
    using d unfolding esc fst_conv
    by (auto simp: INITIAL_DRAG_STATE_def releaseCapture_def handleDrop_def dragStateEffect_def
        endDrag_def Let_def)
qed

theorem escape_cancels_witness:
  "phase (runOps exGesture INITIAL_DRAG_STATE) = Dragging \<and>
   escapeKeyDown ''Escape'' (runOps exGesture INITIAL_DRAG_STATE) =
     (INITIAL_DRAG_STATE, [DragEndEvent exBlock (Some \<lparr>px = 120, py = 120\<rparr>) None True]) \<and>
   releaseCapture exGridCfg (fst (escapeKeyDown ''Escape'' (runOps exGesture INITIAL_DRAG_STATE)))
     (fst (dragStateEffect exGridCfg exDragging (initialDropZoneCtl (Some exGridRect)))) = []"
proof -
  have ph: "phase (runOps exGesture INITIAL_DRAG_STATE) = Dragging"
    by (simp add: exGesture_def coord_defs Let_def)
  from escape_cancels [OF ph, of exGridCfg
      "fst (dragStateEffect exGridCfg exDragging (initialDropZoneCtl (Some exGridRect)))" 0
      "\<lparr>px = 0, py = 0\<rparr>"]
  show ?thesis using ph by (auto simp: exGesture_def coord_defs Let_def)
qed

text \<open>
  C7 (as amended). Every state reached from the initial state by coordinator
  operations is in phase \<open>idle\<close> or \<open>dragging\<close>, in agreement with \<open>isDragging\<close>; in
  phase \<open>dragging\<close> the position and the initial position are defined; in phase \<open>idle\<close>
  they are null and delta and offset are zero. In phase \<open>idle\<close> no drop zone is hovered
  provided that the sequence is hover-guarded; \<open>setOverDropZone\<close> itself checks nothing.
\<close>

theorem reachable_invariant:
  assumes "s = runOps ops INITIAL_DRAG_STATE"
  shows "(phase s = Idle \<or> phase s = Dragging) \<and> (isDragging s \<longleftrightarrow> phase s = Dragging) \<and>
         (phase s = Dragging \<longrightarrow> position s \<noteq> None \<and> initialPosition s \<noteq> None) \<and>
         (phase s = Idle \<longrightarrow> position s = None \<and> initialPosition s = None \<and>
            delta_field s = \<lparr>px = 0, py = 0\<rparr> \<and> offset s = \<lparr>px = 0, py = 0\<rparr>) \<and>
         (hoverGuarded ops INITIAL_DRAG_STATE \<longrightarrow> phase s = Idle \<longrightarrow> overDropZoneId s = None)"
proof -
  have inv: "coordInv s" unfolding assms by (rule coordInv_runOps) (rule coordInv_initial)
  have hov: "hoverGuarded ops INITIAL_DRAG_STATE \<longrightarrow> phase s = Idle \<longrightarrow> overDropZoneId s = None"
    unfolding assms
    using idle_hover_runOps [OF coordInv_initial, of ops]
    by (simp add: INITIAL_DRAG_STATE_def)
  show ?thesis using inv hov by (simp add: coordInv_def)
qed

theorem reachable_invariant_witness:
  "phase (runOps exGesture INITIAL_DRAG_STATE) = Dragging \<and>
   position (runOps exGesture INITIAL_DRAG_STATE) \<noteq> None \<and>
   initialPosition (runOps exGesture INITIAL_DRAG_STATE) \<noteq> None \<and>
   hoverGuarded (exGesture @ [OpEndDrag]) INITIAL_DRAG_STATE \<and>
   phase (runOps (exGesture @ [OpEndDrag]) INITIAL_DRAG_STATE) = Idle \<and>
   position (runOps (exGesture @ [OpEndDrag]) INITIAL_DRAG_STATE) = None \<and>
   overDropZoneId (runOps (exGesture @ [OpEndDrag]) INITIAL_DRAG_STATE) = None"
proof -
  have a: "phase (runOps exGesture INITIAL_DRAG_STATE) = Dragging"
    by (simp add: exGesture_def coord_defs Let_def)
  have b: "hoverGuarded (exGesture @ [OpEndDrag]) INITIAL_DRAG_STATE"
    by (simp add: exGesture_def coord_defs Let_def)
  have c: "phase (runOps (exGesture @ [OpEndDrag]) INITIAL_DRAG_STATE) = Idle"
    by (simp add: exGesture_def coord_defs Let_def)
  show ?thesis
    using a b c reachable_invariant [OF refl, of exGesture]
      reachable_invariant [OF refl, of "exGesture @ [OpEndDrag]"]
    by simp
qed

text \<open>
  C7 as stated fails: \<open>setOverDropZone\<close> with an identifier, applied to the initial
  state, gives an idle state with a hovered drop zone.
\<close>

theorem idle_hover_counterexample:
  "phase (runOps [OpSetOverDropZone (Some ''grid'')] (INITIAL_DRAG_STATE :: nat DragState)) = Idle \<and>
   overDropZoneId (runOps [OpSetOverDropZone (Some ''grid'')] (INITIAL_DRAG_STATE :: nat DragState))
     = Some ''grid''"
  by (simp add: coord_defs Let_def)

text \<open>
  C8. \<open>updateDrag\<close> leaves the state unchanged when no drag is active (\<open>isDragging\<close>
  false or no initial position); when a drag is active it sets the position to its
  argument and delta to position minus initial position, all other fields unchanged;
  and applying it twice with the same position gives the same state as applying it once.
\<close>

theorem updateDrag_state:
  "(\<not> isDragging s \<or> initialPosition s = None \<longrightarrow> fst (updateDrag p s) = s) \<and>
   (isDragging s \<longrightarrow> (\<forall>ip. initialPosition s = Some ip \<longrightarrow>
      fst (updateDrag p s) =
        s\<lparr>position := Some p, delta_field := \<lparr>px = px p - px ip, py = py p - py ip\<rparr>\<rparr>)) \<and>
   fst (updateDrag p (fst (updateDrag p s))) = fst (updateDrag p s)"
  by (auto simp: updateDrag_def delta_def Let_def split: option.splits)

theorem updateDrag_state_witness:
  "\<not> isDragging (INITIAL_DRAG_STATE :: nat DragState) \<and>
   fst (updateDrag \<lparr>px = 120, py = 120\<rparr> (INITIAL_DRAG_STATE :: nat DragState)) = INITIAL_DRAG_STATE \<and>
   isDragging exStarted \<and> initialPosition exStarted = Some \<lparr>px = 50, py = 50\<rparr> \<and>
   fst (updateDrag \<lparr>px = 120, py = 120\<rparr> exStarted) =
     exStarted\<lparr>position := Some \<lparr>px = 120, py = 120\<rparr>, delta_field := \<lparr>px = 70, py = 70\<rparr>\<rparr> \<and>
   fst (updateDrag \<lparr>px = 120, py = 120\<rparr> (fst (updateDrag \<lparr>px = 120, py = 120\<rparr> exStarted)))
     = fst (updateDrag \<lparr>px = 120, py = 120\<rparr> exStarted)"
proof -
  have a: "\<not> isDragging (INITIAL_DRAG_STATE :: nat DragState)"
    by (simp add: INITIAL_DRAG_STATE_def)
  have b: "isDragging exStarted" "initialPosition exStarted = Some \<lparr>px = 50, py = 50\<rparr>"
    by (simp_all add: exStarted_def startDrag_def)
  note idle = updateDrag_state [of "INITIAL_DRAG_STATE :: nat DragState" "\<lparr>px = 120, py = 120\<rparr>"]
  note drag = updateDrag_state [of exStarted "\<lparr>px = 120, py = 120\<rparr>"]
  have c: "fst (updateDrag \<lparr>px = 120, py = 120\<rparr> (INITIAL_DRAG_STATE :: nat DragState))
             = INITIAL_DRAG_STATE"
    using idle a by blast
  have d: "fst (updateDrag \<lparr>px = 120, py = 120\<rparr> exStarted) =
     exStarted\<lparr>position := Some \<lparr>px = 120, py = 120\<rparr>, delta_field := \<lparr>px = 70, py = 70\<rparr>\<rparr>"
    using drag [THEN conjunct2, THEN conjunct1] b by simp
  have e: "fst (updateDrag \<lparr>px = 120, py = 120\<rparr> (fst (updateDrag \<lparr>px = 120, py = 120\<rparr> exStarted)))
     = fst (updateDrag \<lparr>px = 120, py = 120\<rparr> exStarted)"
    using drag by blast
  show ?thesis using a b c d e by blast
qed

section \<open>Geometry claims\<close>

text \<open>
  C9. Point-in-rectangle containment includes all four edges: a point with
  left \<open>\<le>\<close> x \<open>\<le>\<close> right and top \<open>\<le>\<close> y \<open>\<le>\<close> bottom is in the rectangle, and a
  drop target whose element has that rectangle reports the position as over it.
\<close>

theorem isPointInRect_edge_inclusive:
  assumes "rleft r \<le> px p" "px p \<le> rright r" "rtop r \<le> py p" "py p \<le> rbottom r"
  shows "isPointInRect p r \<and> (elementRect z = Some r \<longrightarrow> isPositionOver z (Some p))"
  using assms by (simp add: isPointInRect_def isPositionOver_def)

theorem isPointInRect_edge_inclusive_witness:
  "isPointInRect \<lparr>px = 0, py = 400\<rparr> exGridRect \<and>
   isPositionOver (initialDropZoneCtl (Some exGridRect) :: nat DropZoneCtl)
     (Some \<lparr>px = 0, py = 400\<rparr>)"
proof -
  have e: "elementRect (initialDropZoneCtl (Some exGridRect) :: nat DropZoneCtl) = Some exGridRect"
    by (simp add: initialDropZoneCtl_def)
  have "rleft exGridRect \<le> px \<lparr>px = 0, py = 400\<rparr>" "px \<lparr>px = 0, py = 400\<rparr> \<le> rright exGridRect"
    "rtop exGridRect \<le> py \<lparr>px = 0, py = 400\<rparr>" "py \<lparr>px = 0, py = 400\<rparr> \<le> rbottom exGridRect"
    by (simp_all add: exGridRect_def)
  from isPointInRect_edge_inclusive [OF this,
      of "initialDropZoneCtl (Some exGridRect) :: nat DropZoneCtl"]
  show ?thesis using e by simp
qed

text \<open>
  C10. \<open>intersectionRatio\<close> always returns a number and never divides by zero: the
  intersection area divided by the area of the first rectangle when that area
  (width times height) is positive, and 0 when it is zero or negative.
\<close>

theorem intersectionRatio_total:
  "intersectionRatio a b =
     Some (if 0 < rwidth a * rheight a
           then intersectionArea a b / (rwidth a * rheight a) else 0)"
  by (simp add: intersectionRatio_def js_div_def Let_def)

theorem intersectionRatio_total_witness:
  "intersectionRatio exGridRect exHalfRect = Some (1 / 4) \<and>
   intersectionRatio exFlatRect exGridRect = Some 0"
  using intersectionRatio_total [of exGridRect exHalfRect]
    intersectionRatio_total [of exFlatRect exGridRect]
  by (simp add: exGridRect_def exHalfRect_def exFlatRect_def intersectionArea_def)


section \<open>Draggable controller claims\<close>

text \<open>
  C3, evaluated on the code. With activation delay 300 and tolerance 5 and no
  distance, a pick-up at (0,0) arms the timer and leaves the controller pending; the
  next move, to (3,0), is within the tolerance, and \<open>handleMove\<close> calls \<open>startDrag\<close>
  at once and clears the pending state and the timer: \<open>shouldActivate\<close> answers true
  whenever no positive distance is configured.
\<close>

theorem delay_within_tolerance_starts_drag:
  "handleDragStart exDelayCfg \<lparr>px = 0, py = 0\<rparr> \<lparr>px = 5, py = 5\<rparr> initialDraggableCtl =
     (\<lparr>isPending = True, isOurDrag = False,
       pendingStart = Some \<lparr>ps_position = \<lparr>px = 0, py = 0\<rparr>, ps_offset = \<lparr>px = 5, py = 5\<rparr>,
                            ps_timer = Some 1\<rparr>,
       timers = [(1, \<lparr>px = 0, py = 0\<rparr>, \<lparr>px = 5, py = 5\<rparr>)], nextTimerId = 2\<rparr>, []) \<and>
   distance \<lparr>px = 0, py = 0\<rparr> \<lparr>px = 3, py = 0\<rparr> \<le> 5 \<and>
   handleMove exDelayCfg \<lparr>px = 3, py = 0\<rparr>
     (fst (handleDragStart exDelayCfg \<lparr>px = 0, py = 0\<rparr> \<lparr>px = 5, py = 5\<rparr> initialDraggableCtl)) =
     (\<lparr>isPending = False, isOurDrag = True, pendingStart = None, timers = [], nextTimerId = 2\<rparr>,
      [CallStartDrag exBlock \<lparr>px = 3, py = 0\<rparr> \<lparr>px = 5, py = 5\<rparr>])"
  by (simp add: exDelayCfg_def exBlock_def ctl_defs distance_same_y Let_def)

text \<open>
  The rest of the delay protocol: a move of more than 5 units while the timer is armed
  clears the pending state and the timer, and the timer's callback never runs.
\<close>

lemma delay_tolerance_exceeded_cancels:
  assumes "0 < delay_of cfg" "tolerance_of cfg = 5" "\<not> disabled_of cfg" "5 < distance p0 p"
  shows "handleMove cfg p (fst (handleDragStart cfg p0 off initialDraggableCtl)) =
           (\<lparr>isPending = False, isOurDrag = False, pendingStart = None, timers = [],
             nextTimerId = 2\<rparr>, []) \<and>
         timerElapsed cfg 1
           (fst (handleMove cfg p (fst (handleDragStart cfg p0 off initialDraggableCtl)))) =
           (fst (handleMove cfg p (fst (handleDragStart cfg p0 off initialDraggableCtl))), [])"
  using assms
  by (simp add: handleDragStart_def handleMove_def initialDraggableCtl_def clearPending_def
      clearTimeout_def timerElapsed_def Let_def)

text \<open>
  C4 (as amended). For an enabled draggable, a Space or Enter key press goes through
  the same activation gate as a pointer pick-up, with the element's center as the
  position and half its width and height as the grab offset: when neither a positive
  delay nor a positive distance is configured it calls \<open>startDrag\<close> at once with
  these; otherwise it calls nothing and enters the pending state with these recorded,
  arming the timer exactly when the delay is positive.
\<close>

theorem handleKeyDown_activation:
  assumes en: "\<not> disabled_of cfg" and key: "key = '' '' \<or> key = ''Enter''"
  shows "(delay_of cfg \<le> 0 \<and> minDistance_of cfg \<le> 0 \<longrightarrow>
            handleKeyDown cfg key rect c =
              (c\<lparr>isOurDrag := True\<rparr>,
               [CallStartDrag (dragDataOf cfg)
                  \<lparr>px = rleft rect + rwidth rect / 2, py = rtop rect + rheight rect / 2\<rparr>
                  \<lparr>px = rwidth rect / 2, py = rheight rect / 2\<rparr>])) \<and>
         (\<not> (delay_of cfg \<le> 0 \<and> minDistance_of cfg \<le> 0) \<longrightarrow>
            snd (handleKeyDown cfg key rect c) = [] \<and>
            isPending (fst (handleKeyDown cfg key rect c)) \<and>
            (\<exists>t. pendingStart (fst (handleKeyDown cfg key rect c)) =
                   Some \<lparr>ps_position =
                           \<lparr>px = rleft rect + rwidth rect / 2, py = rtop rect + rheight rect / 2\<rparr>,
                         ps_offset = \<lparr>px = rwidth rect / 2, py = rheight rect / 2\<rparr>,
                         ps_timer = t\<rparr> \<and>
                 (t \<noteq> None \<longleftrightarrow> 0 < delay_of cfg)))"
  using en key by (auto simp: handleKeyDown_def handleDragStart_def Let_def)

theorem handleKeyDown_activation_witness:
  "\<not> disabled_of exPlainCfg \<and> delay_of exPlainCfg \<le> 0 \<and> minDistance_of exPlainCfg \<le> 0 \<and>
   handleKeyDown exPlainCfg ''Enter'' exButtonRect initialDraggableCtl =
     (initialDraggableCtl\<lparr>isOurDrag := True\<rparr>,
      [CallStartDrag exBlock \<lparr>px = 120, py = 210\<rparr> \<lparr>px = 20, py = 10\<rparr>]) \<and>
   \<not> disabled_of exDelayCfg \<and> 0 < delay_of exDelayCfg \<and>
   snd (handleKeyDown exDelayCfg '' '' exButtonRect initialDraggableCtl) = [] \<and>
   isPending (fst (handleKeyDown exDelayCfg '' '' exButtonRect initialDraggableCtl))"
proof -
  have a: "\<not> disabled_of exPlainCfg" "delay_of exPlainCfg \<le> 0" "minDistance_of exPlainCfg \<le> 0"
    by (simp_all add: exPlainCfg_def ctl_defs)
  have b: "\<not> disabled_of exDelayCfg" "0 < delay_of exDelayCfg"
    by (simp_all add: exDelayCfg_def ctl_defs)
  have d: "dragDataOf exPlainCfg = exBlock"
    by (simp add: exPlainCfg_def exBlock_def dragDataOf_def)
  have k1: "''Enter'' = '' '' \<or> ''Enter'' = ''Enter''" and k2: "'' '' = '' '' \<or> '' '' = ''Enter''"
    by simp_all
  note plain = handleKeyDown_activation [OF a(1) k1, of exButtonRect initialDraggableCtl]
  note delayed = handleKeyDown_activation [OF b(1) k2, of exButtonRect initialDraggableCtl]
  have p: "handleKeyDown exPlainCfg ''Enter'' exButtonRect initialDraggableCtl =
     (initialDraggableCtl\<lparr>isOurDrag := True\<rparr>,
      [CallStartDrag exBlock \<lparr>px = 120, py = 210\<rparr> \<lparr>px = 20, py = 10\<rparr>])"
    using plain a d by (simp add: exButtonRect_def)
  have q: "snd (handleKeyDown exDelayCfg '' '' exButtonRect initialDraggableCtl) = [] \<and>
     isPending (fst (handleKeyDown exDelayCfg '' '' exButtonRect initialDraggableCtl))"
    using delayed b by simp
  show ?thesis using a b p q by blast
qed

text \<open>
  C4 as stated fails: with a distance constraint of 10, Enter calls nothing on the
  coordinator and leaves the controller pending.
\<close>

theorem keyboard_immediate_counterexample:
  "\<not> disabled_of exDistanceCfg \<and>
   snd (handleKeyDown exDistanceCfg ''Enter'' exButtonRect initialDraggableCtl) = [] \<and>
   isPending (fst (handleKeyDown exDistanceCfg ''Enter'' exButtonRect initialDraggableCtl)) \<and>
   \<not> isOurDrag (fst (handleKeyDown exDistanceCfg ''Enter'' exButtonRect initialDraggableCtl))"
  by (simp add: exDistanceCfg_def ctl_defs Let_def)

text \<open>
  The ownership flag \<open>isOurDragRef\<close> is clear on a fresh controller and after every
  release or cancel the controller handles itself. An Escape cancel runs in the
  coordinator alone and leaves the flag as it is.
\<close>

lemma isOurDrag_clear:
  "\<not> isOurDrag initialDraggableCtl"
  "\<not> isOurDrag (fst (handleDragEnd c))"
  "\<not> isOurDrag (fst (handleCancel c))"
  by (simp_all add: initialDraggableCtl_def handleDragEnd_def handleCancel_def Let_def)

text \<open>
  C5 (as amended). With a distance constraint of 10 and no positive delay, on a
  controller whose ownership flag \<open>isOurDragRef\<close> is clear at pick-up, a pick-up
  calls nothing and leaves the controller pending without a timer; every run of moves
  that all stay below 10 units from the pick-up point leaves the controller as it is
  and calls nothing; a move at 10 units or more calls \<open>startDrag\<close> (not
  \<open>updateDrag\<close>) with the triggering position and the pick-up's grab offset, ends the
  pending state, and the coordinator is then in phase \<open>dragging\<close> with position and
  initial position both the triggering position and delta zero.
\<close>

theorem distance_activation:
  assumes md: "minDistance_of cfg = 10" and dl: "delay_of cfg \<le> 0"
    and en: "\<not> disabled_of cfg" and own: "\<not> isOurDrag c0"
  shows "handleDragStart cfg p0 off c0 =
           (c0\<lparr>isPending := True,
               pendingStart := Some \<lparr>ps_position = p0, ps_offset = off, ps_timer = None\<rparr>\<rparr>, []) \<and>
         ((\<forall>q \<in> set qs. distance p0 q < 10) \<longrightarrow>
            handleMoves cfg qs (fst (handleDragStart cfg p0 off c0))
              = (fst (handleDragStart cfg p0 off c0), [])) \<and>
         (10 \<le> distance p0 p \<longrightarrow>
            snd (handleMove cfg p (fst (handleDragStart cfg p0 off c0)))
              = [CallStartDrag (dragDataOf cfg) p off] \<and>
            \<not> isPending (fst (handleMove cfg p (fst (handleDragStart cfg p0 off c0)))) \<and>
            isOurDrag (fst (handleMove cfg p (fst (handleDragStart cfg p0 off c0)))) \<and>
            execCmds (snd (handleMove cfg p (fst (handleDragStart cfg p0 off c0)))) s
              = \<lparr>phase = Dragging, isDragging = True, data = Some (dragDataOf cfg),
                 position = Some p, initialPosition = Some p, offset = off,
                 delta_field = \<lparr>px = 0, py = 0\<rparr>, overDropZoneId = None\<rparr>)"
proof -
  let ?c1 = "c0\<lparr>isPending := True,
               pendingStart := Some \<lparr>ps_position = p0, ps_offset = off, ps_timer = None\<rparr>\<rparr>"
  have start: "handleDragStart cfg p0 off c0 = (?c1, [])"
    using en md dl by (simp add: handleDragStart_def Let_def)
  have pend: "pendingStart ?c1 = Some \<lparr>ps_position = p0, ps_offset = off, ps_timer = None\<rparr>"
    and nown: "\<not> isOurDrag ?c1"
    using own by simp_all
  have below: "(\<forall>q \<in> set qs. distance p0 q < 10) \<longrightarrow> handleMoves cfg qs ?c1 = (?c1, [])"
    using handleMoves_below[OF pend nown, of cfg qs] md by simp
  have reach: "10 \<le> distance p0 p \<longrightarrow>
      handleMove cfg p ?c1 = (clearPending (?c1\<lparr>isOurDrag := True\<rparr>), [CallStartDrag (dragDataOf cfg) p off])"
    using handleMove_reach[OF pend nown, of cfg p] md by simp
  show ?thesis
    unfolding start fst_conv
    using below reach by (simp add: clearPending_def startDrag_def)
qed

theorem distance_activation_witness:
  "minDistance_of exDistanceCfg = 10 \<and> delay_of exDistanceCfg \<le> 0 \<and> \<not> disabled_of exDistanceCfg \<and>
   \<not> isOurDrag initialDraggableCtl \<and>
   distance \<lparr>px = 0, py = 0\<rparr> \<lparr>px = 9, py = 0\<rparr> < 10 \<and>
   10 \<le> distance \<lparr>px = 0, py = 0\<rparr> \<lparr>px = 10, py = 0\<rparr> \<and>
   isPending (fst (handleDragStart exDistanceCfg \<lparr>px = 0, py = 0\<rparr> \<lparr>px = 5, py = 5\<rparr> initialDraggableCtl)) \<and>
   handleMoves exDistanceCfg [\<lparr>px = 9, py = 0\<rparr>]
     (fst (handleDragStart exDistanceCfg \<lparr>px = 0, py = 0\<rparr> \<lparr>px = 5, py = 5\<rparr> initialDraggableCtl))
     = (fst (handleDragStart exDistanceCfg \<lparr>px = 0, py = 0\<rparr> \<lparr>px = 5, py = 5\<rparr> initialDraggableCtl), []) \<and>
   snd (handleMove exDistanceCfg \<lparr>px = 10, py = 0\<rparr>
     (fst (handleDragStart exDistanceCfg \<lparr>px = 0, py = 0\<rparr> \<lparr>px = 5, py = 5\<rparr> initialDraggableCtl)))
     = [CallStartDrag (dragDataOf exDistanceCfg) \<lparr>px = 10, py = 0\<rparr> \<lparr>px = 5, py = 5\<rparr>]"
proof -
  have h: "minDistance_of exDistanceCfg = 10" "delay_of exDistanceCfg \<le> 0"
    "\<not> disabled_of exDistanceCfg" "\<not> isOurDrag initialDraggableCtl"
    by (simp_all add: exDistanceCfg_def ctl_defs)
  have d9: "distance \<lparr>px = 0, py = 0\<rparr> \<lparr>px = 9, py = 0\<rparr> < 10"
    and d10: "10 \<le> distance \<lparr>px = 0, py = 0\<rparr> \<lparr>px = 10, py = 0\<rparr>"
    by (simp_all add: distance_same_y)
  note w = distance_activation [OF h, of "\<lparr>px = 0, py = 0\<rparr>" "\<lparr>px = 5, py = 5\<rparr>"
      "[\<lparr>px = 9, py = 0\<rparr>]" "\<lparr>px = 10, py = 0\<rparr>" "INITIAL_DRAG_STATE :: nat DragState"]
  have p: "isPending (fst (handleDragStart exDistanceCfg \<lparr>px = 0, py = 0\<rparr> \<lparr>px = 5, py = 5\<rparr> initialDraggableCtl))"
    using w [THEN conjunct1] by simp
  have m: "handleMoves exDistanceCfg [\<lparr>px = 9, py = 0\<rparr>]
     (fst (handleDragStart exDistanceCfg \<lparr>px = 0, py = 0\<rparr> \<lparr>px = 5, py = 5\<rparr> initialDraggableCtl))
     = (fst (handleDragStart exDistanceCfg \<lparr>px = 0, py = 0\<rparr> \<lparr>px = 5, py = 5\<rparr> initialDraggableCtl), [])"
    using w [THEN conjunct2, THEN conjunct1] d9 by simp
  have r: "snd (handleMove exDistanceCfg \<lparr>px = 10, py = 0\<rparr>
     (fst (handleDragStart exDistanceCfg \<lparr>px = 0, py = 0\<rparr> \<lparr>px = 5, py = 5\<rparr> initialDraggableCtl)))
     = [CallStartDrag (dragDataOf exDistanceCfg) \<lparr>px = 10, py = 0\<rparr> \<lparr>px = 5, py = 5\<rparr>]"
    using w [THEN conjunct2, THEN conjunct2] d10 by blast
  show ?thesis using h d9 d10 p m r by blast
qed

text \<open>
  C5 as stated fails, in two ways. On a fresh controller, the move that reaches 10
  units makes one call, \<open>startDrag\<close>; \<open>updateDrag\<close> is not called with the
  triggering position. And on the controller \<open>exStaleCtl\<close>, whose earlier drag was
  cancelled by Escape so that its ownership flag is still set, a new pick-up followed
  by a move of 9 units calls \<open>updateDrag\<close>, and a move of 20 units calls
  \<open>updateDrag\<close> again and never \<open>startDrag\<close>.
\<close>

theorem distance_updateDrag_counterexample:
  "distance \<lparr>px = 0, py = 0\<rparr> \<lparr>px = 10, py = 0\<rparr> = 10 \<and>
   snd (handleMove exDistanceCfg \<lparr>px = 10, py = 0\<rparr>
     (fst (handleDragStart exDistanceCfg \<lparr>px = 0, py = 0\<rparr> \<lparr>px = 5, py = 5\<rparr> initialDraggableCtl)))
     = [CallStartDrag exBlock \<lparr>px = 10, py = 0\<rparr> \<lparr>px = 5, py = 5\<rparr>] \<and>
   CallUpdateDrag \<lparr>px = 10, py = 0\<rparr> \<notin> set (snd (handleMove exDistanceCfg \<lparr>px = 10, py = 0\<rparr>
     (fst (handleDragStart exDistanceCfg \<lparr>px = 0, py = 0\<rparr> \<lparr>px = 5, py = 5\<rparr> initialDraggableCtl)))) \<and>
   isOurDrag exStaleCtl \<and> \<not> isPending exStaleCtl \<and>
   isPending (fst (handleDragStart exDistanceCfg \<lparr>px = 0, py = 0\<rparr> \<lparr>px = 5, py = 5\<rparr> exStaleCtl)) \<and>
   snd (handleMove exDistanceCfg \<lparr>px = 9, py = 0\<rparr>
     (fst (handleDragStart exDistanceCfg \<lparr>px = 0, py = 0\<rparr> \<lparr>px = 5, py = 5\<rparr> exStaleCtl)))
     = [CallUpdateDrag \<lparr>px = 9, py = 0\<rparr>] \<and>
   snd (handleMove exDistanceCfg \<lparr>px = 20, py = 0\<rparr>
     (fst (handleDragStart exDistanceCfg \<lparr>px = 0, py = 0\<rparr> \<lparr>px = 5, py = 5\<rparr> exStaleCtl)))
     = [CallUpdateDrag \<lparr>px = 20, py = 0\<rparr>]"
  by (simp add: exStaleCtl_def exDistanceCfg_def exBlock_def ctl_defs distance_same_y Let_def)

section \<open>Drop target claims\<close>

text \<open>
  C2 (as amended). At release, \<open>onDrop\<close> is called if and only if a drag is active
  and, at the target's last evaluation of the drag state in force at release, the
  target was not disabled, its accepted types contained the drag type, the position
  lay in the bounding rectangle the element had at that evaluation, and \<open>canDrop\<close>,
  when present, held of the payload. Changes of the element's rectangle after that
  evaluation are not seen: the rectangle at release is the last of them, and it plays
  no part. The call carries the payload and the position, and nothing else is called;
  what the target was over earlier in the gesture plays no part either.
\<close>

theorem drop_commit:
  "releaseCapture cfg ds
     (runZone cfg (evs @ DragStateChanged ds # map LayoutChanged rs) (initialDropZoneCtl r0)) =
     (case data ds of
        None \<Rightarrow> []
      | Some d \<Rightarrow>
          (case position ds of
             None \<Rightarrow> []
           | Some p \<Rightarrow>
               if isDragging ds \<and> \<not> zoneDisabled cfg \<and> dtype d \<in> set (acceptTypes cfg) \<and>
                  (\<exists>r. elementRect (runZone cfg evs (initialDropZoneCtl r0)) = Some r
                       \<and> isPointInRect p r) \<and>
                  (case canDrop cfg of None \<Rightarrow> True | Some f \<Rightarrow> f (payload d))
               then [OnDrop (payload d) p] else [])) \<and>
   elementRect
     (runZone cfg (evs @ DragStateChanged ds # map LayoutChanged rs) (initialDropZoneCtl r0)) =
     (if rs = [] then elementRect (runZone cfg evs (initialDropZoneCtl r0)) else last rs)"
proof -
  let ?z = "runZone cfg evs (initialDropZoneCtl r0)"
  let ?z1 = "fst (dragStateEffect cfg ds ?z)"
  have inv: "zoneInv ?z" by (rule zoneInv_run) (rule zoneInv_initial)
  have run: "runZone cfg (evs @ DragStateChanged ds # map LayoutChanged rs) (initialDropZoneCtl r0)
               = runZone cfg (map LayoutChanged rs) ?z1"
    by (simp add: runZone_append)
  have rel: "releaseCapture cfg ds (runZone cfg (map LayoutChanged rs) ?z1)
               = (if \<not> isDragging ds then [] else handleDrop cfg ds ?z1)"
    by (simp add: releaseCapture_def handleDrop_def runZone_layout_dropState)
  have drop: "(if \<not> isDragging ds then [] else handleDrop cfg ds ?z1) =
     (case data ds of
        None \<Rightarrow> []
      | Some d \<Rightarrow>
          (case position ds of
             None \<Rightarrow> []
           | Some p \<Rightarrow>
               if isDragging ds \<and> \<not> zoneDisabled cfg \<and> dtype d \<in> set (acceptTypes cfg) \<and>
                  (\<exists>r. elementRect ?z = Some r \<and> isPointInRect p r) \<and>
                  (case canDrop cfg of None \<Rightarrow> True | Some f \<Rightarrow> f (payload d))
               then [OnDrop (payload d) p] else []))"
    unfolding effect_then_drop[OF inv]
    by (auto simp: isAcceptedType_def checkCanDrop_def isPositionOver_def split: option.splits)
  have rect: "elementRect (runZone cfg (map LayoutChanged rs) ?z1) =
                (if rs = [] then elementRect ?z else last rs)"
    by (simp add: runZone_layout_rect effect_rect)
  show ?thesis unfolding run rel drop rect by simp
qed

theorem drop_commit_witness:
  "releaseCapture exGridCfg exDragging
     (runZone exGridCfg
        [DragStateChanged exStarted, DragStateChanged exDragging, LayoutChanged (Some exMovedRect)]
        (initialDropZoneCtl (Some exGridRect)))
     = [OnDrop 7 \<lparr>px = 120, py = 120\<rparr>] \<and>
   releaseCapture exGridCfg exDragging
     (runZone exGridCfg
        [DragStateChanged exStarted, DragStateChanged exDragging, LayoutChanged (Some exGridRect)]
        (initialDropZoneCtl (Some exMovedRect)))
     = [] \<and>
   elementRect
     (runZone exGridCfg
        [DragStateChanged exStarted, DragStateChanged exDragging, LayoutChanged (Some exGridRect)]
        (initialDropZoneCtl (Some exMovedRect)))
     = Some exGridRect \<and>
   isPointInRect \<lparr>px = 120, py = 120\<rparr> exGridRect"
proof -
  note a = drop_commit [of exGridCfg exDragging "[DragStateChanged exStarted]"
      "[Some exMovedRect]" "Some exGridRect"]
  note b = drop_commit [of exGridCfg exDragging "[DragStateChanged exStarted]"
      "[Some exGridRect]" "Some exMovedRect"]
  have r1: "elementRect (runZone exGridCfg [DragStateChanged exStarted]
              (initialDropZoneCtl (Some exGridRect))) = Some exGridRect"
    and r2: "elementRect (runZone exGridCfg [DragStateChanged exStarted]
              (initialDropZoneCtl (Some exMovedRect))) = Some exMovedRect"
    by (simp_all add: effect_rect initialDropZoneCtl_def)
  have d: "data exDragging = Some exBlock" "position exDragging = Some \<lparr>px = 120, py = 120\<rparr>"
    "isDragging exDragging"
    by (simp_all add: exDragging_def exStarted_def coord_defs Let_def)
  have c: "\<not> zoneDisabled exGridCfg" "dtype exBlock \<in> set (acceptTypes exGridCfg)"
    "canDrop exGridCfg = None" "payload exBlock = 7"
    by (simp_all add: exGridCfg_def exBlock_def zoneDisabled_def acceptTypes_def)
  have g: "isPointInRect \<lparr>px = 120, py = 120\<rparr> exGridRect"
    "\<not> isPointInRect \<lparr>px = 120, py = 120\<rparr> exMovedRect"
    by (simp_all add: isPointInRect_def exGridRect_def exMovedRect_def)
  have w1: "releaseCapture exGridCfg exDragging
     (runZone exGridCfg
        [DragStateChanged exStarted, DragStateChanged exDragging, LayoutChanged (Some exMovedRect)]
        (initialDropZoneCtl (Some exGridRect)))
     = [OnDrop 7 \<lparr>px = 120, py = 120\<rparr>]"
    using a [THEN conjunct1] r1 d c g by simp
  have w2: "releaseCapture exGridCfg exDragging
     (runZone exGridCfg
        [DragStateChanged exStarted, DragStateChanged exDragging, LayoutChanged (Some exGridRect)]
        (initialDropZoneCtl (Some exMovedRect)))
     = []"
    using b [THEN conjunct1] r2 d c g by simp
  have w3: "elementRect
     (runZone exGridCfg
        [DragStateChanged exStarted, DragStateChanged exDragging, LayoutChanged (Some exGridRect)]
        (initialDropZoneCtl (Some exMovedRect)))
     = Some exGridRect"
    using b [THEN conjunct2] by simp
  show ?thesis using w1 w2 w3 g(1) by blast
qed

text \<open>
  C2 as stated fails: the target is evaluated over the position (120,120), then its
  element moves away without any change of the drag state; at release the position is
  outside the element's current rectangle and \<open>onDrop\<close> is called all the same.
\<close>

theorem drop_stale_region_counterexample:
  "elementRect (runZone exGridCfg [DragStateChanged exDragging, LayoutChanged (Some exMovedRect)]
        (initialDropZoneCtl (Some exGridRect))) = Some exMovedRect \<and>
   position exDragging = Some \<lparr>px = 120, py = 120\<rparr> \<and>
   \<not> isPointInRect \<lparr>px = 120, py = 120\<rparr> exMovedRect \<and>
   releaseCapture exGridCfg exDragging
     (runZone exGridCfg [DragStateChanged exDragging, LayoutChanged (Some exMovedRect)]
        (initialDropZoneCtl (Some exGridRect)))
     = [OnDrop 7 \<lparr>px = 120, py = 120\<rparr>]"
  by (simp add: ex_defs coord_defs zone_defs Let_def)


end
